theory Spec2Isabelle
  imports Complex_Main "HOL-Library.List_Lexorder" "HOL-Library.Char_ord"
begin

section \<open>Data model\<close>

text \<open>
  Exceptions raised by the connectors and the storage backend are values of \<open>py_error\<close>;
  a call that may raise returns \<open>py_error + 'a\<close>. \<open>ConnectionError\<close> is the class
  declared in \<open>ninjatrader_client.py\<close>; the others are the built-in exceptions the code
  raises itself or lets through from the standard library.

  A naive \<open>datetime\<close> is the number of microseconds since 0001-01-01T00:00:00, and a
  \<open>timedelta\<close> a number of microseconds. Python floats are idealised as real numbers
  (no rounding error, no infinities, no NaN). Strings are byte lists.
\<close>

datatype py_error =
  ConnectionError | TimeoutError | ValueError | IndexError | OverflowError

section \<open>Timeframe strings\<close>

text \<open>
  \<open>py_int\<close> is Python's \<open>int(str)\<close> in base 10 on ASCII input: surrounding
  whitespace is stripped, one sign is allowed, digits may be separated by single underscores,
  and a literal of more than 4300 digits is refused (the interpreter's default limit for
  string conversion). \<open>None\<close> stands for \<open>ValueError\<close>.
\<close>

definition is_space :: "char \<Rightarrow> bool" where
  "is_space c = (let n = (of_char c :: nat) in (9 \<le> n \<and> n \<le> 13) \<or> (28 \<le> n \<and> n \<le> 32))"

definition is_digit :: "char \<Rightarrow> bool" where
  "is_digit c = (let n = (of_char c :: nat) in 48 \<le> n \<and> n \<le> 57)"

definition digit_val :: "char \<Rightarrow> int" where
  "digit_val c = int (of_char c) - 48"

definition strip :: "string \<Rightarrow> string" where
  "strip s = rev (dropWhile is_space (rev (dropWhile is_space s)))"

fun parse_digits :: "int \<Rightarrow> string \<Rightarrow> int option" where
  "parse_digits acc [] = Some acc"
| "parse_digits acc (c # cs) =
     (if is_digit c then parse_digits (acc * 10 + digit_val c) cs
      else if c = CHR ''_'' then
        (case cs of
           [] \<Rightarrow> None
         | d # ds \<Rightarrow> if is_digit d then parse_digits (acc * 10 + digit_val d) ds else None)
      else None)"

definition py_int :: "string \<Rightarrow> int option" where
  "py_int s =
     (case strip s of
        [] \<Rightarrow> None
      | c # cs \<Rightarrow>
          (let sgn = (if c = CHR ''-'' then - 1 else 1);
               body = (if c = CHR ''-'' \<or> c = CHR ''+'' then cs else c # cs)
           in case body of
                [] \<Rightarrow> None
              | d # ds \<Rightarrow>
                  if is_digit d \<and> length (filter is_digit body) \<le> 4300
                  then map_option (\<lambda>v. sgn * v) (parse_digits (digit_val d) ds)
                  else None))"

text \<open>
  \<open>timedelta seconds minutes hours\<close> is the constructor call with these keyword arguments.
  The constructor raises \<open>OverflowError\<close> when the normalised number of days has a
  magnitude above 999999999.
\<close>

definition in_timedelta_range :: "int \<Rightarrow> bool" where
  "in_timedelta_range us =
     (- 999999999 \<le> us div 86400000000 \<and> us div 86400000000 \<le> 999999999)"

definition timedelta :: "int \<Rightarrow> int \<Rightarrow> int \<Rightarrow> py_error + int" where
  "timedelta seconds minutes hours =
     (let us = (seconds + 60 * minutes + 3600 * hours) * 1000000
      in if in_timedelta_range us then Inr us else Inl OverflowError)"

text \<open>
  \<open>_timeframe_to_timedelta\<close>: \<open>timeframe[-1]\<close> raises \<open>IndexError\<close> on the empty
  string and \<open>int(timeframe[:-1])\<close> raises \<open>ValueError\<close> on a prefix that is not an
  integer literal.
\<close>

definition timeframe_to_timedelta :: "string \<Rightarrow> py_error + int" where
  "timeframe_to_timedelta timeframe =
     (if timeframe = [] then Inl IndexError
      else
        let unit = last timeframe; pre = butlast timeframe
        in case (if pre \<noteq> [] then py_int pre else Some 1) of
             None \<Rightarrow> Inl ValueError
           | Some v \<Rightarrow>
               if unit = CHR ''m'' then timedelta 0 v 0
               else if unit = CHR ''h'' then timedelta 0 0 v
               else if unit = CHR ''s'' then timedelta v 0 0
               else timedelta 0 1 0)"



text \<open>The length of one unit, in microseconds, as the specification names the units.\<close>

definition unit_microseconds :: "char \<Rightarrow> int" where
  "unit_microseconds u =
     (if u = CHR ''s'' then 1000000 else if u = CHR ''m'' then 60000000 else 3600000000)"

text \<open>
  Standard-library functions the code calls on strings are parameters of the model, collected
  in \<open>pylib\<close>: \<open>csv.reader\<close> (the rows it yields for a file's text),
  \<open>datetime.fromisoformat\<close>, \<open>datetime.strptime(_, "%Y-%m-%d")\<close> and \<open>float\<close>
  (\<open>None\<close> is \<open>ValueError\<close>), \<open>datetime.isoformat\<close> and \<open>date.isoformat\<close>.
\<close>

record pylib =
  csv_reader :: "string \<Rightarrow> string list list"
  fromisoformat :: "string \<Rightarrow> int option"
  strptime_ymd :: "string \<Rightarrow> int option"
  float_of_str :: "string \<Rightarrow> real option"
  isoformat :: "int \<Rightarrow> string"
  date_isoformat :: "int \<Rightarrow> string"

text \<open>The dataclasses of \<open>models/tick.py\<close> and \<open>models/bar.py\<close>.\<close>

record TickData =
  tick_time :: int
  tick_bid :: "real option"
  tick_ask :: "real option"
  tick_last :: "real option"
  tick_volume :: "int option"
  tick_instrument :: string

record BarData =
  bar_time :: int
  bar_open :: real
  bar_high :: real
  bar_low :: real
  bar_close :: real
  bar_volume :: int
  bar_instrument :: string
  bar_timeframe :: string

section \<open>Storage backend\<close>

text \<open>
  The SQLite file is the content of its two tables, in insertion order (the order of the
  autoincremented ids). Times are stored as the text \<open>isoformat\<close> gives, and compared as
  SQLite compares text, byte by byte. An integer outside 64 bits cannot be bound to a
  statement: the insert raises \<open>OverflowError\<close> and the transaction leaves the table as it
  was.
\<close>

record tick_row =
  tr_instrument :: string
  tr_time :: string
  tr_bid :: "real option"
  tr_ask :: "real option"
  tr_last :: "real option"
  tr_volume :: "int option"

record bar_row =
  br_instrument :: string
  br_timeframe :: string
  br_time :: string
  br_open :: real
  br_high :: real
  br_low :: real
  br_close :: real
  br_volume :: int

record database =
  ticks_table :: "tick_row list"
  bars_table :: "bar_row list"


definition sqlite_integer_ok :: "int \<Rightarrow> bool" where
  "sqlite_integer_ok v = (- (2 ^ 63) \<le> v \<and> v < 2 ^ 63)"






text \<open>
  The statement \<open>fetch_ticks\<close> and \<open>fetch_bars\<close> assemble: one optional clause per
  filter and an optional \<open>LIMIT\<close>. A clause is added when the argument is truthy.
\<close>

record query =
  where_instrument :: "string option"
  where_timeframe :: "string option"
  where_time_ge :: "string option"
  where_time_le :: "string option"
  limit_param :: "int option"

definition truthy_str :: "string option \<Rightarrow> string option" where
  "truthy_str s = (case s of None \<Rightarrow> None | Some v \<Rightarrow> if v \<noteq> [] then Some v else None)"

definition truthy_int :: "int option \<Rightarrow> int option" where
  "truthy_int n = (case n of None \<Rightarrow> None | Some v \<Rightarrow> if v \<noteq> 0 then Some v else None)"

definition tick_query :: "pylib \<Rightarrow> string option \<Rightarrow> int option \<Rightarrow> int option \<Rightarrow> int option \<Rightarrow> query" where
  "tick_query L instrument start end limit =
     \<lparr>where_instrument = truthy_str instrument, where_timeframe = None,
      where_time_ge = map_option (isoformat L) start,
      where_time_le = map_option (isoformat L) end,
      limit_param = truthy_int limit\<rparr>"

definition bar_query :: "pylib \<Rightarrow> string option \<Rightarrow> string option \<Rightarrow> int option \<Rightarrow> int option \<Rightarrow> int option \<Rightarrow> query" where
  "bar_query L instrument timeframe start end limit =
     \<lparr>where_instrument = truthy_str instrument, where_timeframe = truthy_str timeframe,
      where_time_ge = map_option (isoformat L) start,
      where_time_le = map_option (isoformat L) end,
      limit_param = truthy_int limit\<rparr>"

definition holds :: "'a option \<Rightarrow> ('a \<Rightarrow> bool) \<Rightarrow> bool" where
  "holds c p = (case c of None \<Rightarrow> True | Some v \<Rightarrow> p v)"

definition tick_row_matches :: "query \<Rightarrow> tick_row \<Rightarrow> bool" where
  "tick_row_matches q r =
     (holds (where_instrument q) (\<lambda>i. tr_instrument r = i) \<and>
      holds (where_time_ge q) (\<lambda>s. tr_time r \<ge> s) \<and>
      holds (where_time_le q) (\<lambda>e. tr_time r \<le> e))"

definition bar_row_matches :: "query \<Rightarrow> bar_row \<Rightarrow> bool" where
  "bar_row_matches q r =
     (holds (where_instrument q) (\<lambda>i. br_instrument r = i) \<and>
      holds (where_timeframe q) (\<lambda>t. br_timeframe r = t) \<and>
      holds (where_time_ge q) (\<lambda>s. br_time r \<ge> s) \<and>
      holds (where_time_le q) (\<lambda>e. br_time r \<le> e))"

text \<open>
  \<open>LIMIT n\<close> with a negative \<open>n\<close> is no limit in SQLite. \<open>ORDER BY time\<close> is
  modelled by the stable sort on the stored text.
\<close>

definition apply_limit :: "int option \<Rightarrow> 'a list \<Rightarrow> py_error + 'a list" where
  "apply_limit n_limit rows =
     (case n_limit of
        None \<Rightarrow> Inr rows
      | Some n \<Rightarrow>
          if \<not> sqlite_integer_ok n then Inl OverflowError
          else if n < 0 then Inr rows
          else Inr (take (nat n) rows))"

definition select_ticks :: "query \<Rightarrow> database \<Rightarrow> py_error + tick_row list" where
  "select_ticks q db =
     apply_limit (limit_param q) (sort_key tr_time (filter (tick_row_matches q) (ticks_table db)))"

definition select_bars :: "query \<Rightarrow> database \<Rightarrow> py_error + bar_row list" where
  "select_bars q db =
     apply_limit (limit_param q) (sort_key br_time (filter (bar_row_matches q) (bars_table db)))"

definition row_to_tick :: "pylib \<Rightarrow> tick_row \<Rightarrow> py_error + TickData" where
  "row_to_tick L r =
     (case fromisoformat L (tr_time r) of
        None \<Rightarrow> Inl ValueError
      | Some t \<Rightarrow>
          Inr \<lparr>tick_time = t, tick_bid = tr_bid r, tick_ask = tr_ask r, tick_last = tr_last r,
               tick_volume = tr_volume r, tick_instrument = tr_instrument r\<rparr>)"

definition row_to_bar :: "pylib \<Rightarrow> bar_row \<Rightarrow> py_error + BarData" where
  "row_to_bar L r =
     (case fromisoformat L (br_time r) of
        None \<Rightarrow> Inl ValueError
      | Some t \<Rightarrow>
          Inr \<lparr>bar_time = t, bar_open = br_open r, bar_high = br_high r, bar_low = br_low r,
               bar_close = br_close r, bar_volume = br_volume r,
               bar_instrument = br_instrument r, bar_timeframe = br_timeframe r\<rparr>)"

fun map_result :: "('a \<Rightarrow> py_error + 'b) \<Rightarrow> 'a list \<Rightarrow> py_error + 'b list" where
  "map_result f [] = Inr []"
| "map_result f (x # xs) =
     (case f x of
        Inl e \<Rightarrow> Inl e
      | Inr y \<Rightarrow> (case map_result f xs of Inl e \<Rightarrow> Inl e | Inr ys \<Rightarrow> Inr (y # ys)))"

definition fetch_ticks :: "pylib \<Rightarrow> database \<Rightarrow> string option \<Rightarrow> int option \<Rightarrow> int option \<Rightarrow> int option \<Rightarrow> py_error + TickData list" where
  "fetch_ticks L db instrument start end limit =
     (case select_ticks (tick_query L instrument start end limit) db of
        Inl e \<Rightarrow> Inl e
      | Inr rows \<Rightarrow> map_result (row_to_tick L) rows)"

definition fetch_bars :: "pylib \<Rightarrow> database \<Rightarrow> string option \<Rightarrow> string option \<Rightarrow> int option \<Rightarrow> int option \<Rightarrow> int option \<Rightarrow> py_error + BarData list" where
  "fetch_bars L db instrument timeframe start end limit =
     (case select_bars (bar_query L instrument timeframe start end limit) db of
        Inl e \<Rightarrow> Inl e
      | Inr rows \<Rightarrow> map_result (row_to_bar L) rows)"

section \<open>Simulated client\<close>

text \<open>
  \<open>datetime + timedelta\<close> raises \<open>OverflowError\<close> outside 0001-01-01 .. 9999-12-31.
\<close>

definition datetime_max :: int where
  "datetime_max = 315537897599999999"

definition valid_datetime :: "int \<Rightarrow> bool" where
  "valid_datetime t = (0 \<le> t \<and> t \<le> datetime_max)"

definition datetime_add :: "int \<Rightarrow> int \<Rightarrow> py_error + int" where
  "datetime_add t d = (if valid_datetime (t + d) then Inr (t + d) else Inl OverflowError)"

text \<open>
  \<open>random.uniform(a, b)\<close> is \<open>a + (b - a) * random()\<close>; the value of \<open>random()\<close> is an
  input of the model. \<open>round2 x\<close> is \<open>round(x, 2)\<close>: to the nearest hundredth, a tie to the
  even one.
\<close>

definition uniform :: "real \<Rightarrow> real \<Rightarrow> real \<Rightarrow> real" where
  "uniform a b r = a + (b - a) * r"

definition round_half_even :: "real \<Rightarrow> int" where
  "round_half_even y =
     (let f = \<lfloor>y\<rfloor>; d = y - of_int f
      in if d < 1 / 2 then f else if 1 / 2 < d then f + 1 else if even f then f else f + 1)"

definition round2 :: "real \<Rightarrow> real" where
  "round2 x = of_int (round_half_even (x * 100)) / 100"

text \<open>The random draws of one bar and of one tick.\<close>

record bar_draws =
  r_high :: real
  r_low :: real
  r_close :: real
  d_volume :: int

record tick_draws =
  r_change :: real
  r_spread :: real
  r_last :: real
  d_tick_volume :: int
  d_utcnow :: int

text \<open>
  A subscription is identified by a number, which names its \<open>threading.Event\<close>, its
  thread and the \<open>cancel\<close> closure returned to the caller. A thread keeps the local state
  of \<open>_stream\<close>; \<open>th_delivered\<close> lists the ticks it has passed to \<open>on_tick\<close>.
\<close>

record stream_thread =
  th_instrument :: string
  th_last_price :: real
  th_finished :: bool
  th_delivered :: "TickData list"

record SimulatedNinjaTraderClient =
  connected :: bool
  tick_interval :: real
  stop_event :: bool
  subscriptions :: "(string \<times> nat) list"
  events :: "nat \<Rightarrow> bool"
  threads :: "nat \<Rightarrow> stream_thread option"
  next_id :: nat

definition sim_init :: "real \<Rightarrow> SimulatedNinjaTraderClient" where
  "sim_init interval =
     \<lparr>connected = False, tick_interval = interval, stop_event = False, subscriptions = [],
      events = (\<lambda>_. False), threads = (\<lambda>_. None), next_id = 0\<rparr>"

definition sim_connect :: "SimulatedNinjaTraderClient \<Rightarrow> SimulatedNinjaTraderClient" where
  "sim_connect self = self\<lparr>connected := True\<rparr>"

definition sim_disconnect :: "SimulatedNinjaTraderClient \<Rightarrow> SimulatedNinjaTraderClient" where
  "sim_disconnect self =
     self\<lparr>stop_event := True,
          events := (\<lambda>k. if k \<in> snd ` set (subscriptions self) then True else events self k),
          subscriptions := [],
          connected := False\<rparr>"

definition sim_subscribe_market_data ::
  "SimulatedNinjaTraderClient \<Rightarrow> string \<Rightarrow> real \<Rightarrow> (py_error + nat) \<times> SimulatedNinjaTraderClient" where
  "sim_subscribe_market_data self instrument seed =
     (if \<not> connected self then (Inl ConnectionError, self)
      else
        let k = next_id self
        in (Inr k,
            self\<lparr>events := (events self)(k := False),
                 threads := (threads self)(k :=
                   Some \<lparr>th_instrument = instrument, th_last_price = uniform 1000 5000 seed,
                         th_finished = False, th_delivered = []\<rparr>),
                 subscriptions := subscriptions self @ [(instrument, k)],
                 next_id := Suc k\<rparr>))"

definition sim_cancel :: "SimulatedNinjaTraderClient \<Rightarrow> nat \<Rightarrow> SimulatedNinjaTraderClient" where
  "sim_cancel self k =
     self\<lparr>events := (events self)(k := True),
          subscriptions := filter (\<lambda>sub. snd sub \<noteq> k) (subscriptions self)\<rparr>"

text \<open>
  One evaluation of the loop condition of \<open>_stream\<close> in thread \<open>k\<close>, followed by the loop
  body when the condition holds. An exception of the callback is caught and changes nothing.
\<close>

definition stream_step ::
  "SimulatedNinjaTraderClient \<Rightarrow> nat \<Rightarrow> tick_draws \<Rightarrow> SimulatedNinjaTraderClient" where
  "stream_step self k d =
     (case threads self k of
        None \<Rightarrow> self
      | Some th \<Rightarrow>
          if th_finished th then self
          else if events self k \<or> stop_event self
          then self\<lparr>threads := (threads self)(k := Some (th\<lparr>th_finished := True\<rparr>))\<rparr>
          else
            let change = uniform (- 1.5) 1.5 (r_change d);
                bid = max 0 (th_last_price th + change - 0.5);
                ask = bid + uniform 0.25 1.25 (r_spread d);
                last_price = bid + uniform 0 (ask - bid) (r_last d);
                tick = \<lparr>tick_time = d_utcnow d, tick_bid = Some (round2 bid),
                        tick_ask = Some (round2 ask), tick_last = Some (round2 last_price),
                        tick_volume = Some (d_tick_volume d),
                        tick_instrument = th_instrument th\<rparr>
            in self\<lparr>threads := (threads self)(k :=
                 Some (th\<lparr>th_last_price := last_price,
                          th_delivered := th_delivered th @ [tick]\<rparr>))\<rparr>)"

text \<open>
  What can happen to a client: the calls of its interface and the steps of its threads, in
  any interleaving.
\<close>

datatype action =
  Connect | Disconnect | Subscribe string real | Cancel nat | Step nat tick_draws

fun perform :: "SimulatedNinjaTraderClient \<Rightarrow> action \<Rightarrow> SimulatedNinjaTraderClient" where
  "perform self Connect = sim_connect self"
| "perform self Disconnect = sim_disconnect self"
| "perform self (Subscribe instrument seed) = snd (sim_subscribe_market_data self instrument seed)"
| "perform self (Cancel k) = sim_cancel self k"
| "perform self (Step k d) = stream_step self k d"

definition run :: "SimulatedNinjaTraderClient \<Rightarrow> action list \<Rightarrow> SimulatedNinjaTraderClient" where
  "run self acts = foldl perform self acts"

text \<open>
  \<open>request_historical_data\<close>. The loop does not return when the interval is not positive
  and \<open>start < end\<close>: not returning is the value \<open>None\<close>.
\<close>

partial_function (option) historical_loop ::
  "string \<Rightarrow> string \<Rightarrow> int \<Rightarrow> int \<Rightarrow> (nat \<Rightarrow> bar_draws) \<Rightarrow> nat \<Rightarrow> int \<Rightarrow> real \<Rightarrow> BarData list
     \<Rightarrow> (py_error + BarData list) option" where
  "historical_loop instrument timeframe delta end draws i current price bars =
     (if current < end then
        (let high = price + uniform 0 5 (r_high (draws i));
             low = price - uniform 0 5 (r_low (draws i));
             close = uniform low high (r_close (draws i));
             volume = d_volume (draws i);
             bars' = bars @ [\<lparr>bar_time = current, bar_open = round2 price, bar_high = round2 high,
                               bar_low = round2 low, bar_close = round2 close, bar_volume = volume,
                               bar_instrument = instrument, bar_timeframe = timeframe\<rparr>]
         in case datetime_add current delta of
              Inl e \<Rightarrow> Some (Inl e)
            | Inr current' \<Rightarrow>
                historical_loop instrument timeframe delta end draws (Suc i) current' close bars')
      else Some (Inr bars))"

definition sim_request_historical_data ::
  "SimulatedNinjaTraderClient \<Rightarrow> string \<Rightarrow> string \<Rightarrow> int \<Rightarrow> int \<Rightarrow> real \<Rightarrow> (nat \<Rightarrow> bar_draws)
     \<Rightarrow> (py_error + BarData list) option" where
  "sim_request_historical_data self instrument timeframe start end seed draws =
     (if \<not> connected self then Some (Inl ConnectionError)
      else case timeframe_to_timedelta timeframe of
             Inl e \<Rightarrow> Some (Inl e)
           | Inr delta \<Rightarrow>
               historical_loop instrument timeframe delta end draws 0 start
                 (uniform 1000 5000 seed) [])"

text \<open>
  The bar one iteration appends and the price it hands to the next, and the list \<open>n\<close>
  iterations build: the loop, unrolled.
\<close>

definition bar_of_draws :: "string \<Rightarrow> string \<Rightarrow> int \<Rightarrow> real \<Rightarrow> bar_draws \<Rightarrow> BarData" where
  "bar_of_draws instrument timeframe current price d =
     (let high = price + uniform 0 5 (r_high d);
          low = price - uniform 0 5 (r_low d);
          close = uniform low high (r_close d)
      in \<lparr>bar_time = current, bar_open = round2 price, bar_high = round2 high,
          bar_low = round2 low, bar_close = round2 close, bar_volume = d_volume d,
          bar_instrument = instrument, bar_timeframe = timeframe\<rparr>)"

definition close_of_draws :: "real \<Rightarrow> bar_draws \<Rightarrow> real" where
  "close_of_draws price d =
     uniform (price - uniform 0 5 (r_low d)) (price + uniform 0 5 (r_high d)) (r_close d)"

fun walk_bars ::
  "string \<Rightarrow> string \<Rightarrow> int \<Rightarrow> (nat \<Rightarrow> bar_draws) \<Rightarrow> nat \<Rightarrow> nat \<Rightarrow> int \<Rightarrow> real \<Rightarrow> BarData list" where
  "walk_bars instrument timeframe delta draws 0 i current price = []"
| "walk_bars instrument timeframe delta draws (Suc n) i current price =
     bar_of_draws instrument timeframe current price (draws i) #
     walk_bars instrument timeframe delta draws n (Suc i) (current + delta)
       (close_of_draws price (draws i))"

text \<open>Every value of \<open>random()\<close> lies between 0 and 1.\<close>

definition unit_draws :: "(nat \<Rightarrow> bar_draws) \<Rightarrow> bool" where
  "unit_draws draws =
     (\<forall>i. 0 \<le> r_high (draws i) \<and> r_high (draws i) \<le> 1 \<and>
          0 \<le> r_low (draws i) \<and> r_low (draws i) \<le> 1 \<and>
          0 \<le> r_close (draws i) \<and> r_close (draws i) \<le> 1)"

definition bar_ordered :: "BarData \<Rightarrow> bool" where
  "bar_ordered b =
     (bar_low b \<le> bar_open b \<and> bar_open b \<le> bar_high b \<and>
      bar_low b \<le> bar_close b \<and> bar_close b \<le> bar_high b)"

definition example_draws :: "nat \<Rightarrow> bar_draws" where
  "example_draws i = \<lparr>r_high = 1 / 2, r_low = 1 / 4, r_close = 1 / 2, d_volume = 10\<rparr>"

text \<open>
  Two invariants of the interleavings: no thread exists under a number not yet handed out,
  and once the stop event is set no thread numbered \<open>n0\<close> or above has delivered a tick.
\<close>

definition unallocated :: "SimulatedNinjaTraderClient \<Rightarrow> bool" where
  "unallocated t = (\<forall>k\<ge>next_id t. threads t k = None)"

definition silenced :: "nat \<Rightarrow> SimulatedNinjaTraderClient \<Rightarrow> bool" where
  "silenced n0 t =
     (stop_event t \<and> n0 \<le> next_id t \<and> unallocated t \<and>
      (\<forall>k th. n0 \<le> k \<longrightarrow> threads t k = Some th \<longrightarrow> th_delivered th = []))"

definition example_tick_draws :: tick_draws where
  "example_tick_draws =
     \<lparr>r_change = 1 / 2, r_spread = 1 / 2, r_last = 1 / 2, d_tick_volume = 5,
      d_utcnow = 63839750400000000\<rparr>"

section \<open>File-handshake client\<close>

text \<open>
  The file system maps a path to the text of the file there. The add-on of the trading
  terminal is another process: between two polls of the client it may write and delete
  files, and what it does is an input of the model.
\<close>

type_synonym filesystem = "string \<Rightarrow> string option"

datatype fs_op = WriteFile string string | DeleteFile string

fun apply_op :: "filesystem \<Rightarrow> fs_op \<Rightarrow> filesystem" where
  "apply_op fs (WriteFile path text) = fs(path := Some text)"
| "apply_op fs (DeleteFile path) = fs(path := None)"

definition apply_ops :: "filesystem \<Rightarrow> fs_op list \<Rightarrow> filesystem" where
  "apply_ops fs ops = foldl apply_op fs ops"


record KinetickEODClient =
  k_connected :: bool
  commands_dir :: string
  export_dir :: string
  export_timeout :: real
  poll_interval :: real

definition kinetick_connect :: "KinetickEODClient \<Rightarrow> KinetickEODClient" where
  "kinetick_connect self = self\<lparr>k_connected := True\<rparr>"

definition kinetick_disconnect :: "KinetickEODClient \<Rightarrow> KinetickEODClient" where
  "kinetick_disconnect self = self\<lparr>k_connected := False\<rparr>"

definition command_path :: "KinetickEODClient \<Rightarrow> string \<Rightarrow> string" where
  "command_path self command_id = commands_dir self @ ''/'' @ ''cmd_'' @ command_id @ ''.txt''"

definition export_path :: "KinetickEODClient \<Rightarrow> string \<Rightarrow> string" where
  "export_path self command_id = export_dir self @ ''/'' @ command_id @ ''.csv''"

fun join :: "string \<Rightarrow> string list \<Rightarrow> string" where
  "join sep [] = []"
| "join sep [x] = x"
| "join sep (x # y # ys) = x @ sep @ join sep (y # ys)"

text \<open>
  \<open>csv.DictReader\<close>: the first row of the reader gives the field names; a later row becomes
  the dictionary of its values under these names, the later of two equal names winning, and
  a name the row is too short for gets the value \<open>None\<close>. A dictionary maps a key to
  \<open>None\<close> (no such key), \<open>Some None\<close> (the value \<open>None\<close>) or \<open>Some (Some s)\<close>.
\<close>

type_synonym csv_dict = "string \<Rightarrow> string option option"

definition dict_row :: "string list \<Rightarrow> string list \<Rightarrow> csv_dict" where
  "dict_row fieldnames row =
     (\<lambda>key. if key \<in> set (drop (length row) fieldnames) then Some None
            else map_option Some (map_of (rev (zip fieldnames row)) key))"

text \<open>\<open>d.get(key) or other\<close> and \<open>d.get(key, 0.0) or 0.0\<close> keep a non-empty string only.\<close>

definition truthy_field :: "string option option \<Rightarrow> string option" where
  "truthy_field v =
     (case v of Some (Some s) \<Rightarrow> if s \<noteq> [] then Some s else None | _ \<Rightarrow> None)"

definition float_field :: "pylib \<Rightarrow> string option option \<Rightarrow> py_error + real" where
  "float_field L v =
     (case truthy_field v of
        None \<Rightarrow> Inr 0
      | Some s \<Rightarrow> (case float_of_str L s of None \<Rightarrow> Inl ValueError | Some x \<Rightarrow> Inr x))"

definition int_of_float :: "real \<Rightarrow> int" where
  "int_of_float x = (if 0 \<le> x then \<lfloor>x\<rfloor> else \<lceil>x\<rceil>)"

definition parse_date :: "pylib \<Rightarrow> string \<Rightarrow> py_error + int" where
  "parse_date L s =
     (case fromisoformat L s of
        Some t \<Rightarrow> Inr t
      | None \<Rightarrow> (case strptime_ymd L s of Some t \<Rightarrow> Inr t | None \<Rightarrow> Inl ValueError))"

definition sum_bind :: "'e + 'a \<Rightarrow> ('a \<Rightarrow> 'e + 'b) \<Rightarrow> 'e + 'b" where
  "sum_bind m f = (case m of Inl e \<Rightarrow> Inl e | Inr x \<Rightarrow> f x)"

text \<open>One turn of the loop of \<open>_parse_export\<close>: \<open>Inr None\<close> is \<open>continue\<close>.\<close>

definition export_row_to_bar :: "pylib \<Rightarrow> string \<Rightarrow> csv_dict \<Rightarrow> py_error + BarData option" where
  "export_row_to_bar L instrument row =
     (case (case truthy_field (row ''Date'') of
              Some s \<Rightarrow> Some s
            | None \<Rightarrow> truthy_field (row ''date'')) of
        None \<Rightarrow> Inr None
      | Some date_value \<Rightarrow>
          sum_bind (parse_date L date_value) (\<lambda>time_value.
          sum_bind (float_field L (row ''Open'')) (\<lambda>open_value.
          sum_bind (float_field L (row ''High'')) (\<lambda>high_value.
          sum_bind (float_field L (row ''Low'')) (\<lambda>low_value.
          sum_bind (float_field L (row ''Close'')) (\<lambda>close_value.
          sum_bind (float_field L (row ''Volume'')) (\<lambda>volume_value.
            Inr (Some \<lparr>bar_time = time_value, bar_open = open_value, bar_high = high_value,
                       bar_low = low_value, bar_close = close_value,
                       bar_volume = int_of_float volume_value,
                       bar_instrument = instrument, bar_timeframe = ''1D''\<rparr>))))))))"

fun parse_rows ::
  "pylib \<Rightarrow> string \<Rightarrow> string list \<Rightarrow> string list list \<Rightarrow> BarData list \<Rightarrow> py_error + BarData list" where
  "parse_rows L instrument fieldnames [] bars = Inr bars"
| "parse_rows L instrument fieldnames (row # rest) bars =
     (if row = [] then parse_rows L instrument fieldnames rest bars
      else case export_row_to_bar L instrument (dict_row fieldnames row) of
             Inl e \<Rightarrow> Inl e
           | Inr None \<Rightarrow> parse_rows L instrument fieldnames rest bars
           | Inr (Some b) \<Rightarrow> parse_rows L instrument fieldnames rest (bars @ [b]))"

definition parse_export :: "pylib \<Rightarrow> string \<Rightarrow> string \<Rightarrow> py_error + BarData list" where
  "parse_export L text instrument =
     (case csv_reader L text of
        [] \<Rightarrow> Inr []
      | fieldnames # rows \<Rightarrow> parse_rows L instrument fieldnames rows [])"

text \<open>
  \<open>_wait_for_export\<close>. Each evaluation of the loop condition takes one poll from the list:
  the reading of \<open>time.time()\<close> and what the add-on did to the files since the poll before.
  \<open>None\<close> means the call is still polling when the listed polls are used up. An exception
  of the parser leaves the export file where it is.
\<close>

fun wait_for_export ::
  "pylib \<Rightarrow> KinetickEODClient \<Rightarrow> string \<Rightarrow> string \<Rightarrow> real \<Rightarrow> (real \<times> fs_op list) list \<Rightarrow> filesystem
     \<Rightarrow> ((py_error + BarData list) \<times> filesystem) option" where
  "wait_for_export L self path instrument start_time [] fs = None"
| "wait_for_export L self path instrument start_time ((now, ops) # polls) fs =
     (let fs1 = apply_ops fs ops
      in if now - start_time < export_timeout self then
           (case fs1 path of
              Some text \<Rightarrow>
                (case parse_export L text instrument of
                   Inl e \<Rightarrow> Some (Inl e, fs1)
                 | Inr bars \<Rightarrow> Some (Inr bars, fs1(path := None)))
            | None \<Rightarrow> wait_for_export L self path instrument start_time polls fs1)
         else Some (Inl TimeoutError, fs1))"

text \<open>
  \<open>request_historical_data\<close>; \<open>command_id\<close> is the value of \<open>uuid4().hex\<close>. The
  \<open>finally\<close> clause removes the command file on every way out of the wait.
\<close>

definition kinetick_request_historical_data ::
  "pylib \<Rightarrow> KinetickEODClient \<Rightarrow> filesystem \<Rightarrow> string \<Rightarrow> string \<Rightarrow> string \<Rightarrow> int \<Rightarrow> int \<Rightarrow> real
     \<Rightarrow> (real \<times> fs_op list) list \<Rightarrow> ((py_error + BarData list) \<times> filesystem) option" where
  "kinetick_request_historical_data L self fs command_id instrument timeframe start end
     start_time polls =
     (if \<not> k_connected self then Some (Inl ConnectionError, fs)
      else
        let payload = join '';''
              [''DOWNLOAD'', instrument, date_isoformat L start, date_isoformat L end,
               export_path self command_id];
            fs0 = fs(command_path self command_id := Some payload)
        in case wait_for_export L self (export_path self command_id) instrument start_time
                  polls fs0 of
             None \<Rightarrow> None
           | Some (result, fs1) \<Rightarrow> Some (result, fs1(command_path self command_id := None)))"


definition after_polls :: "filesystem \<Rightarrow> (real \<times> fs_op list) list \<Rightarrow> filesystem" where
  "after_polls fs polls = foldl (\<lambda>fs poll. apply_ops fs (snd poll)) fs polls"







definition example_client :: KinetickEODClient where
  "example_client =
     \<lparr>k_connected = True, commands_dir = ''cmd'', export_dir = ''out'', export_timeout = 90,
      poll_interval = 1\<rparr>"


section \<open>A library instance for worked examples\<close>

text \<open>
  \<open>example_lib\<close> agrees with the standard library on the few strings the worked examples
  use: text without quotes is split at line feeds and commas, 2024-01-02 is day 738886
  after 0001-01-01, and three decimal literals are read as floats.
\<close>

fun split_char :: "char \<Rightarrow> string \<Rightarrow> string \<Rightarrow> string list" where
  "split_char sep field [] = [rev field]"
| "split_char sep field (c # cs) =
     (if c = sep then rev field # split_char sep [] cs else split_char sep (c # field) cs)"

definition example_csv_reader :: "string \<Rightarrow> string list list" where
  "example_csv_reader text =
     map (\<lambda>line. if line = [] then [] else split_char CHR '','' [] line)
       (butlast (split_char (CHR 0x0A) [] text))"

definition example_lib :: pylib where
  "example_lib =
     \<lparr>csv_reader = example_csv_reader,
      fromisoformat =
        (\<lambda>s. if s = ''2024-01-02'' \<or> s = ''2024-01-02T00:00:00''
             then Some 63839750400000000 else None),
      strptime_ymd = (\<lambda>s. if s = ''2024-01-02'' then Some 63839750400000000 else None),
      float_of_str =
        (\<lambda>s. if s = ''1.5'' then Some 1.5 else if s = ''2'' then Some 2
             else if s = ''100'' then Some 100 else None),
      isoformat = (\<lambda>t. if t = 63839750400000000 then ''2024-01-02T00:00:00'' else []),
      date_isoformat = (\<lambda>t. if t = 63839750400000000 then ''2024-01-02'' else [])\<rparr>"



section \<open>Timeframe strings: theorems\<close>

lemma timedelta_seconds:
  "timedelta v 0 0 =
     (if in_timedelta_range (v * 1000000) then Inr (v * 1000000) else Inl OverflowError)"
  by (simp add: timedelta_def Let_def mult.commute)

lemma timedelta_minutes:
  "timedelta 0 v 0 =
     (if in_timedelta_range (v * 60000000) then Inr (v * 60000000) else Inl OverflowError)"
  by (simp add: timedelta_def Let_def mult.commute)

lemma timedelta_hours:
  "timedelta 0 0 v =
     (if in_timedelta_range (v * 3600000000) then Inr (v * 3600000000) else Inl OverflowError)"
  by (simp add: timedelta_def Let_def mult.commute)

lemma py_int_Some_nonempty: "py_int p = Some n \<Longrightarrow> p \<noteq> []"
  by (auto simp: py_int_def strip_def)

lemma tf_known_unit:
  assumes "py_int p = Some n" and "u \<in> {CHR ''s'', CHR ''m'', CHR ''h''}"
  shows "timeframe_to_timedelta (p @ [u]) =
           (if in_timedelta_range (n * unit_microseconds u) then Inr (n * unit_microseconds u)
            else Inl OverflowError)"
  using assms py_int_Some_nonempty[OF assms(1)]
  by (auto simp: timeframe_to_timedelta_def unit_microseconds_def timedelta_seconds
      timedelta_minutes timedelta_hours)



lemma digit_not_space: "is_digit c \<Longrightarrow> \<not> is_space c"
  by (auto simp: is_digit_def is_space_def Let_def)

lemma strip_digits:
  assumes "ds \<noteq> []" "\<forall>c\<in>set ds. is_digit c"
  shows "strip ds = ds"
proof -
  obtain c cs where ds: "ds = c # cs" using assms(1) by (cases ds) auto
  have 1: "dropWhile is_space ds = ds" using ds assms(2) by (simp add: digit_not_space)
  obtain r rs where rv: "rev ds = r # rs" using assms(1) by (cases "rev ds") auto
  have "r \<in> set ds" using rv by (metis list.set_intros(1) set_rev)
  then have "\<not> is_space r" using assms(2) digit_not_space by blast
  then have "dropWhile is_space (rev ds) = rev ds" using rv by simp
  then show ?thesis using 1 by (simp add: strip_def)
qed

lemma parse_digits_all:
  "\<forall>c\<in>set ds. is_digit c \<Longrightarrow>
   parse_digits acc ds = Some (foldl (\<lambda>a c. a * 10 + digit_val c) acc ds)"
  by (induction ds arbitrary: acc) auto

text \<open>
  On a plain decimal literal \<open>py_int\<close> is the usual positional value, so the hypothesis
  \<open>py_int p = Some n\<close> of the theorems below covers every \<open><int>\<close> prefix.
\<close>

lemma py_int_decimal:
  assumes "ds \<noteq> []" "\<forall>c\<in>set ds. is_digit c" "length ds \<le> 4300"
  shows "py_int ds = Some (foldl (\<lambda>a c. a * 10 + digit_val c) 0 ds)"
proof -
  obtain c cs where ds: "ds = c # cs" using assms(1) by (cases ds) auto
  have dc: "is_digit c" and dcs: "\<forall>c\<in>set cs. is_digit c" using ds assms(2) by auto
  have nm: "c \<noteq> CHR ''-''" "c \<noteq> CHR ''+''" using dc by (auto simp: is_digit_def)
  have fl: "filter is_digit ds = ds" using assms(2) by (simp add: filter_id_conv)
  show ?thesis
    using strip_digits[OF assms(1,2)] ds dc nm fl assms(3)
      parse_digits_all[OF dcs, of "digit_val c"]
    by (simp add: py_int_def Let_def)
qed





section \<open>Storage backend: theorems\<close>

lemma truthy_str_empty: "truthy_str (Some []) = truthy_str None"
  by (simp add: truthy_str_def)

lemma truthy_int_zero: "truthy_int (Some 0) = truthy_int None"
  by (simp add: truthy_int_def)


















text \<open>
  C10. \<open>fetch_ticks\<close> and \<open>fetch_bars\<close> test their filters for truthiness: an empty
  instrument (or timeframe) string gives the call without that filter, a limit of 0 gives the
  call without a limit, and with all of them the whole table is read, rows of every
  instrument, in time order.
\<close>

theorem fetch_filters_truthiness:
  "fetch_ticks L db (Some []) s e l = fetch_ticks L db None s e l \<and>
   fetch_ticks L db i s e (Some 0) = fetch_ticks L db i s e None \<and>
   fetch_bars L db (Some []) tf s e l = fetch_bars L db None tf s e l \<and>
   fetch_bars L db i (Some []) s e l = fetch_bars L db i None s e l \<and>
   fetch_bars L db i tf s e (Some 0) = fetch_bars L db i tf s e None \<and>
   fetch_ticks L db (Some []) None None (Some 0)
     = map_result (row_to_tick L) (sort_key tr_time (ticks_table db)) \<and>
   fetch_bars L db (Some []) (Some []) None None (Some 0)
     = map_result (row_to_bar L) (sort_key br_time (bars_table db))"
  by (simp add: fetch_ticks_def fetch_bars_def tick_query_def bar_query_def truthy_str_def
      truthy_int_def select_ticks_def select_bars_def tick_row_matches_def bar_row_matches_def
      holds_def apply_limit_def)


section \<open>Simulated client: theorems\<close>

lemma round_half_even_bounds: "\<lfloor>y\<rfloor> \<le> round_half_even y \<and> round_half_even y \<le> \<lfloor>y\<rfloor> + 1"
  by (simp add: round_half_even_def Let_def)

lemma round_half_even_mono:
  assumes "x \<le> y"
  shows "round_half_even x \<le> round_half_even y"
proof (cases "\<lfloor>x\<rfloor> = \<lfloor>y\<rfloor>")
  case True
  define f where "f = \<lfloor>y\<rfloor>"
  define dx where "dx = x - of_int f"
  define dy where "dy = y - of_int f"
  have le: "dx \<le> dy" using assms by (simp add: dx_def dy_def)
  have rx: "round_half_even x = (if dx < 1 / 2 then f else if 1 / 2 < dx then f + 1 else if even f then f else f + 1)"
    using True by (simp add: round_half_even_def Let_def dx_def f_def)
  have ry: "round_half_even y = (if dy < 1 / 2 then f else if 1 / 2 < dy then f + 1 else if even f then f else f + 1)"
    by (simp add: round_half_even_def Let_def dy_def f_def)
  show ?thesis
  proof (cases "dx < 1 / 2")
    case True
    then have "round_half_even x = f" by (simp add: rx)
    moreover have "f \<le> round_half_even y" by (simp add: ry)
    ultimately show ?thesis by simp
  next
    case False
    note nx = this
    show ?thesis
    proof (cases "1 / 2 < dx")
      case True
      then have "1 / 2 < dy" using le by linarith
      then have "round_half_even y = f + 1" by (simp add: ry)
      moreover have "round_half_even x \<le> f + 1" by (simp add: rx)
      ultimately show ?thesis by simp
    next
      case False
      then have dxh: "dx = 1 / 2" using nx by linarith
      show ?thesis
      proof (cases "1 / 2 < dy")
        case True
        then have "round_half_even y = f + 1" by (simp add: ry)
        moreover have "round_half_even x \<le> f + 1" by (simp add: rx)
        ultimately show ?thesis by simp
      next
        case False
        then have "dy = 1 / 2" using le dxh by linarith
        then have "round_half_even y = round_half_even x" using dxh by (simp add: rx ry)
        then show ?thesis by simp
      qed
    qed
  qed
next
  case False
  then have "\<lfloor>x\<rfloor> < \<lfloor>y\<rfloor>" using floor_mono[OF assms] by linarith
  then have "round_half_even x \<le> \<lfloor>y\<rfloor>" using round_half_even_bounds[of x] by linarith
  then show ?thesis using round_half_even_bounds[of y] by linarith
qed

lemma round2_mono: "x \<le> y \<Longrightarrow> round2 x \<le> round2 y"
  using round_half_even_mono[of "x * 100" "y * 100"]
  by (simp add: round2_def divide_right_mono)

lemma historical_loop_unfold:
  "historical_loop instrument timeframe delta end draws i current price bars =
     (if current < end then
        (case datetime_add current delta of
           Inl e \<Rightarrow> Some (Inl e)
         | Inr current' \<Rightarrow>
             historical_loop instrument timeframe delta end draws (Suc i) current'
               (close_of_draws price (draws i))
               (bars @ [bar_of_draws instrument timeframe current price (draws i)]))
      else Some (Inr bars))"
  by (subst historical_loop.simps)
     (simp add: Let_def bar_of_draws_def close_of_draws_def cong: sum.case_cong)

lemma historical_loop_total:
  assumes "0 < delta" "0 \<le> current"
    "\<forall>k<n. current + int k * delta < end" "end \<le> current + int n * delta"
    "current + int n * delta \<le> datetime_max"
  shows "historical_loop instrument timeframe delta end draws i current price bars =
           Some (Inr (bars @ walk_bars instrument timeframe delta draws n i current price))"
  using assms
proof (induction n arbitrary: i current price bars)
  case 0
  then show ?case by (subst historical_loop_unfold) simp
next
  case (Suc n)
  have lt: "current < end" using Suc.prems(3) by (auto dest: spec[of _ 0])
  have "0 \<le> int n * delta" using Suc.prems(1) by simp
  then have "current + delta \<le> current + int (Suc n) * delta"
    by (simp add: algebra_simps)
  then have "current + delta \<le> datetime_max" using Suc.prems(5) by linarith
  then have add: "datetime_add current delta = Inr (current + delta)"
    using Suc.prems(1,2) by (simp add: datetime_add_def valid_datetime_def)
  have step: "\<forall>k<n. current + delta + int k * delta < end"
  proof (intro allI impI)
    fix k assume "k < n"
    then have "current + int (Suc k) * delta < end" using Suc.prems(3) by auto
    then show "current + delta + int k * delta < end" by (simp add: algebra_simps)
  qed
  have e: "end \<le> current + delta + int n * delta" and m: "current + delta + int n * delta \<le> datetime_max"
    using Suc.prems(4,5) by (simp_all add: algebra_simps)
  have nn: "0 \<le> current + delta" using Suc.prems(1,2) by simp
  show ?case
    by (subst historical_loop_unfold)
       (simp add: lt add Suc.IH[OF Suc.prems(1) nn step e m])
qed



lemma historical_loop_result:
  assumes "historical_loop instrument timeframe delta end draws i current price bars = Some r"
  shows "\<forall>out. r = Inr out \<longrightarrow>
           (\<exists>n. out = bars @ walk_bars instrument timeframe delta draws n i current price)"
proof (rule historical_loop.raw_induct
    [where P = "\<lambda>instrument timeframe delta fin draws i current price bars r.
       \<forall>out. r = Inr out \<longrightarrow>
         (\<exists>n. out = bars @ walk_bars instrument timeframe delta draws n i current price)",
     OF _ assms], goal_cases)
  case (1 loop instrument timeframe delta fin draws i current price bars r)
  show ?case
  proof (cases "current < fin")
    case False
    then have "r = Inr bars" using 1(2) by simp
    then show ?thesis by (auto intro: exI[of _ 0])
  next
    case True
    show ?thesis
    proof (cases "datetime_add current delta")
      case (Inl e)
      then have "r = Inl e" using 1(2) True by (simp add: Let_def)
      then show ?thesis by simp
    next
      case (Inr current')
      then have c': "current' = current + delta"
        by (auto simp: datetime_add_def split: if_splits)
      have rec: "loop instrument timeframe delta fin draws (Suc i) current'
                  (close_of_draws price (draws i))
                  (bars @ [bar_of_draws instrument timeframe current price (draws i)]) = Some r"
        using 1(2) True Inr by (simp add: Let_def bar_of_draws_def close_of_draws_def)
      show ?thesis
      proof (intro allI impI)
        fix out assume "r = Inr out"
        with 1(1)[OF rec] obtain n where
          "out = (bars @ [bar_of_draws instrument timeframe current price (draws i)]) @
             walk_bars instrument timeframe delta draws n (Suc i) current'
               (close_of_draws price (draws i))" by blast
        then have "out = bars @ walk_bars instrument timeframe delta draws (Suc n) i current price"
          by (simp add: c')
        then show "\<exists>n. out = bars @ walk_bars instrument timeframe delta draws n i current price"
          by blast
      qed
    qed
  qed
qed

lemma bar_of_draws_ordered:
  assumes "0 \<le> r_high d" "0 \<le> r_low d" "0 \<le> r_close d" "r_close d \<le> 1"
  shows "bar_ordered (bar_of_draws instrument timeframe current price d)"
proof -
  define high where "high = price + uniform 0 5 (r_high d)"
  define low where "low = price - uniform 0 5 (r_low d)"
  define close where "close = uniform low high (r_close d)"
  have hp: "price \<le> high" using assms(1) by (simp add: high_def uniform_def)
  have lp: "low \<le> price" using assms(2) by (simp add: low_def uniform_def)
  have lh: "0 \<le> high - low" using hp lp by linarith
  have "0 \<le> (high - low) * r_close d" using lh assms(3) by simp
  then have lc: "low \<le> close" by (simp add: close_def uniform_def)
  have "(high - low) * r_close d \<le> (high - low) * 1"
    using lh assms(4) by (rule mult_left_mono[rotated])
  then have ch: "close \<le> high" by (simp add: close_def uniform_def)
  show ?thesis
    using round2_mono[OF lp] round2_mono[OF hp] round2_mono[OF lc] round2_mono[OF ch]
    by (simp add: bar_ordered_def bar_of_draws_def Let_def high_def low_def close_def)
qed

lemma walk_bars_ordered:
  assumes "unit_draws draws"
  shows "\<forall>b\<in>set (walk_bars instrument timeframe delta draws n i current price). bar_ordered b"
proof (induction n arbitrary: i current price)
  case 0
  then show ?case by simp
next
  case (Suc n)
  have "bar_ordered (bar_of_draws instrument timeframe current price (draws i))"
    using assms by (intro bar_of_draws_ordered) (simp_all add: unit_draws_def)
  then show ?case using Suc.IH by simp
qed

lemma walk_bars_length:
  "length (walk_bars instrument timeframe delta draws n i current price) = n"
  by (induction n arbitrary: i current price) simp_all

lemma walk_bars_first_open:
  "0 < n \<Longrightarrow>
   bar_open (walk_bars instrument timeframe delta draws n i current price ! 0) = round2 price"
  by (cases n) (simp_all add: bar_of_draws_def Let_def)

lemma walk_bars_chain:
  "Suc k < n \<Longrightarrow>
   bar_open (walk_bars instrument timeframe delta draws n i current price ! Suc k)
     = bar_close (walk_bars instrument timeframe delta draws n i current price ! k)"
proof (induction n arbitrary: i current price k)
  case 0
  then show ?case by simp
next
  case (Suc n)
  show ?case
  proof (cases k)
    case 0
    then have "0 < n" using Suc.prems by simp
    then show ?thesis
      using 0 walk_bars_first_open[of n instrument timeframe delta draws "Suc i"]
      by (simp add: bar_of_draws_def close_of_draws_def Let_def)
  next
    case (Suc j)
    then have "Suc j < n" using Suc.prems by simp
    then show ?thesis using Suc Suc.IH by simp
  qed
qed




lemma py_int_30: "py_int ''30'' = Some 30"
  by (simp add: py_int_def strip_def is_space_def is_digit_def digit_val_def)


lemma timeframe_30m: "timeframe_to_timedelta ''30m'' = Inr 1800000000"
  using tf_known_unit[OF py_int_30, of "CHR ''m''"]
  by (simp add: in_timedelta_range_def unit_microseconds_def)



lemma example_walk:
  "walk_bars ''ES'' ''30m'' 1800000000 example_draws 2 0 0 3000 =
     [\<lparr>bar_time = 0, bar_open = 3000, bar_high = 3002.5, bar_low = 2998.75,
        bar_close = 3000.62, bar_volume = 10, bar_instrument = ''ES'', bar_timeframe = ''30m''\<rparr>,
      \<lparr>bar_time = 1800000000, bar_open = 3000.62, bar_high = 3003.12, bar_low = 2999.38,
        bar_close = 3001.25, bar_volume = 10, bar_instrument = ''ES'',
        bar_timeframe = ''30m''\<rparr>]"
  by (simp add: numeral_2_eq_2 bar_of_draws_def close_of_draws_def uniform_def round2_def
      round_half_even_def example_draws_def Let_def)

lemma example_request:
  "sim_request_historical_data (sim_connect (sim_init 1)) ''ES'' ''30m'' 0 3600000000 (1 / 2)
     example_draws
   = Some (Inr (walk_bars ''ES'' ''30m'' 1800000000 example_draws 2 0 0 3000))"
proof -
  have c: "connected (sim_connect (sim_init 1))" by (simp add: sim_connect_def sim_init_def)
  have k: "\<forall>k<2. 0 + int k * 1800000000 < 3600000000"
    by (auto simp: less_2_cases_iff)
  have "historical_loop ''ES'' ''30m'' 1800000000 3600000000 example_draws 0 0 3000 []
          = Some (Inr ([] @ walk_bars ''ES'' ''30m'' 1800000000 example_draws 2 0 0 3000))"
    using k by (intro historical_loop_total) (simp_all add: datetime_max_def)
  then show ?thesis using c timeframe_30m
    by (simp add: sim_request_historical_data_def uniform_def)
qed



text \<open>
  C4. With every random draw in its range, every bar the call returns has
  \<open>low \<le> open \<le> high\<close> and \<open>low \<le> close \<le> high\<close> on the rounded fields, and each
  bar's open is the close of the bar before it.
\<close>

theorem sim_bars_ordered_and_chained:
  assumes "unit_draws draws"
    and "sim_request_historical_data self instrument timeframe start end seed draws
           = Some (Inr bars)"
  shows "(\<forall>b\<in>set bars.
            bar_low b \<le> bar_open b \<and> bar_open b \<le> bar_high b \<and>
            bar_low b \<le> bar_close b \<and> bar_close b \<le> bar_high b) \<and>
         (\<forall>k. Suc k < length bars \<longrightarrow> bar_open (bars ! Suc k) = bar_close (bars ! k))"
proof -
  from assms(2) obtain delta where
    loop: "historical_loop instrument timeframe delta end draws 0 start
             (uniform 1000 5000 seed) [] = Some (Inr bars)"
    by (auto simp: sim_request_historical_data_def split: if_splits sum.splits)
  from historical_loop_result[OF loop] obtain n where
    bars: "bars = walk_bars instrument timeframe delta draws n 0 start (uniform 1000 5000 seed)"
    by auto
  have "\<forall>b\<in>set bars. bar_ordered b"
    unfolding bars using assms(1) by (rule walk_bars_ordered)
  moreover have "\<forall>k. Suc k < length bars \<longrightarrow> bar_open (bars ! Suc k) = bar_close (bars ! k)"
    unfolding bars by (simp add: walk_bars_length walk_bars_chain)
  ultimately show ?thesis by (simp add: bar_ordered_def)
qed


theorem sim_bars_ordered_and_chained_witness:
  "unit_draws example_draws \<and>
   sim_request_historical_data (sim_connect (sim_init 1)) ''ES'' ''30m'' 0 3600000000 (1 / 2)
     example_draws
   = Some (Inr
       [\<lparr>bar_time = 0, bar_open = 3000, bar_high = 3002.5, bar_low = 2998.75,
          bar_close = 3000.62, bar_volume = 10, bar_instrument = ''ES'',
          bar_timeframe = ''30m''\<rparr>,
        \<lparr>bar_time = 1800000000, bar_open = 3000.62, bar_high = 3003.12, bar_low = 2999.38,
          bar_close = 3001.25, bar_volume = 10, bar_instrument = ''ES'',
          bar_timeframe = ''30m''\<rparr>]) \<and>
   (2998.75::real) \<le> 3000 \<and> (3000::real) \<le> 3002.5 \<and>
   (2998.75::real) \<le> 3000.62 \<and> (3000.62::real) \<le> 3002.5 \<and>
   (2999.38::real) \<le> 3000.62 \<and> (3000.62::real) \<le> 3003.12 \<and>
   (2999.38::real) \<le> 3001.25 \<and> (3001.25::real) \<le> 3003.12"
proof -
  have ud: "unit_draws example_draws" by (simp add: unit_draws_def example_draws_def)
  have res: "sim_request_historical_data (sim_connect (sim_init 1)) ''ES'' ''30m'' 0 3600000000
               (1 / 2) example_draws
             = Some (Inr
                 [\<lparr>bar_time = 0, bar_open = 3000, bar_high = 3002.5, bar_low = 2998.75,
                    bar_close = 3000.62, bar_volume = 10, bar_instrument = ''ES'',
                    bar_timeframe = ''30m''\<rparr>,
                  \<lparr>bar_time = 1800000000, bar_open = 3000.62, bar_high = 3003.12,
                    bar_low = 2999.38, bar_close = 3001.25, bar_volume = 10,
                    bar_instrument = ''ES'', bar_timeframe = ''30m''\<rparr>])"
    using example_request by (simp only: example_walk)
  show ?thesis
    using sim_bars_ordered_and_chained[OF ud res] ud res by simp
qed

lemma perform_unallocated: "unallocated t \<Longrightarrow> unallocated (perform t a)"
  by (cases a)
     (auto simp: unallocated_def sim_connect_def sim_disconnect_def sim_subscribe_market_data_def
        sim_cancel_def stream_step_def Let_def split: option.splits)

lemma run_unallocated: "unallocated t \<Longrightarrow> unallocated (run t acts)"
  unfolding run_def by (induction acts arbitrary: t) (simp_all add: perform_unallocated)

lemma init_unallocated: "unallocated (sim_init interval)"
  by (simp add: unallocated_def sim_init_def)

lemma perform_silenced:
  assumes "silenced n0 t"
  shows "silenced n0 (perform t a)"
proof (cases a)
  case Connect
  then show ?thesis using assms by (simp add: silenced_def unallocated_def sim_connect_def)
next
  case Disconnect
  then show ?thesis using assms by (simp add: silenced_def unallocated_def sim_disconnect_def)
next
  case (Subscribe instrument seed)
  then show ?thesis using assms
    by (auto simp: silenced_def unallocated_def sim_subscribe_market_data_def Let_def)
next
  case (Cancel k)
  then show ?thesis using assms by (simp add: silenced_def unallocated_def sim_cancel_def)
next
  case (Step k d)
  then show ?thesis using assms
    by (auto simp: silenced_def unallocated_def stream_step_def split: option.splits)
qed

lemma run_silenced: "silenced n0 t \<Longrightarrow> silenced n0 (run t acts)"
  unfolding run_def by (induction acts arbitrary: t) (simp_all add: perform_silenced)

lemma disconnect_silenced:
  "unallocated t \<Longrightarrow> silenced (next_id (sim_disconnect t)) (sim_disconnect t)"
  by (simp add: silenced_def unallocated_def sim_disconnect_def)

lemma stream_step_stopped:
  "stop_event t \<Longrightarrow> threads t k = Some th \<Longrightarrow> \<not> th_finished th \<Longrightarrow>
   stream_step t k d = t\<lparr>threads := (threads t)(k := Some (th\<lparr>th_finished := True\<rparr>))\<rparr>"
  by (simp add: stream_step_def)

text \<open>
  C9. Take any history of a client, then \<open>disconnect()\<close>. A \<open>connect()\<close> makes
  \<open>is_connected\<close> true again and leaves the connector-wide stop event set; whatever follows,
  the event stays set, every thread created after the disconnection has delivered no tick,
  and the first check of its loop condition ends it.
\<close>

theorem stop_event_never_cleared:
  "connected (sim_connect (sim_disconnect (run (sim_init interval) before))) \<and>
   stop_event (sim_connect (sim_disconnect (run (sim_init interval) before))) \<and>
   stop_event (run (sim_disconnect (run (sim_init interval) before)) after) \<and>
   (next_id (sim_disconnect (run (sim_init interval) before)) \<le> k \<longrightarrow>
    threads (run (sim_disconnect (run (sim_init interval) before)) after) k = Some th \<longrightarrow>
      th_delivered th = [] \<and>
      (\<not> th_finished th \<longrightarrow>
         stream_step (run (sim_disconnect (run (sim_init interval) before)) after) k d
         = (run (sim_disconnect (run (sim_init interval) before)) after)
             \<lparr>threads := (threads (run (sim_disconnect (run (sim_init interval) before)) after))
                (k := Some (th\<lparr>th_finished := True\<rparr>))\<rparr>))"
proof -
  let ?s = "run (sim_init interval) before"
  let ?s1 = "sim_disconnect ?s"
  let ?s2 = "run ?s1 after"
  have u: "unallocated ?s" by (intro run_unallocated init_unallocated)
  have sil: "silenced (next_id ?s1) ?s2" by (intro run_silenced disconnect_silenced u)
  have a: "connected (sim_connect ?s1) \<and> stop_event (sim_connect ?s1)"
    by (simp add: sim_connect_def sim_disconnect_def)
  have b: "stop_event ?s2" using sil by (simp add: silenced_def)
  have c: "th_delivered th = []" if "next_id ?s1 \<le> k" "threads ?s2 k = Some th"
    using sil that by (auto simp: silenced_def)
  have e: "stream_step ?s2 k d = ?s2\<lparr>threads := (threads ?s2)(k := Some (th\<lparr>th_finished := True\<rparr>))\<rparr>"
    if "threads ?s2 k = Some th" "\<not> th_finished th"
    using b that by (rule stream_step_stopped)
  show ?thesis using a b c e by blast
qed


theorem stop_event_never_cleared_witness:
  "next_id (sim_disconnect
      (run (sim_init 1) [Connect, Subscribe ''ES'' (1 / 2), Step 0 example_tick_draws])) \<le> 1 \<and>
   threads (run (sim_disconnect
      (run (sim_init 1) [Connect, Subscribe ''ES'' (1 / 2), Step 0 example_tick_draws]))
      [Connect, Subscribe ''NQ'' (1 / 4)]) 1
   = Some \<lparr>th_instrument = ''NQ'', th_last_price = 2000, th_finished = False,
            th_delivered = []\<rparr> \<and>
   connected (run (sim_disconnect
      (run (sim_init 1) [Connect, Subscribe ''ES'' (1 / 2), Step 0 example_tick_draws]))
      [Connect, Subscribe ''NQ'' (1 / 4)]) \<and>
   stop_event (run (sim_disconnect
      (run (sim_init 1) [Connect, Subscribe ''ES'' (1 / 2), Step 0 example_tick_draws]))
      [Connect, Subscribe ''NQ'' (1 / 4)]) \<and>
   threads (stream_step (run (sim_disconnect
      (run (sim_init 1) [Connect, Subscribe ''ES'' (1 / 2), Step 0 example_tick_draws]))
      [Connect, Subscribe ''NQ'' (1 / 4)]) 1 example_tick_draws) 1
   = Some \<lparr>th_instrument = ''NQ'', th_last_price = 2000, th_finished = True,
            th_delivered = []\<rparr>"
proof -
  let ?pre = "[Connect, Subscribe ''ES'' (1 / 2), Step 0 example_tick_draws]"
  let ?post = "[Connect, Subscribe ''NQ'' (1 / 4)]"
  let ?th = "\<lparr>th_instrument = ''NQ'', th_last_price = 2000, th_finished = False,
               th_delivered = []\<rparr>"
  have n: "next_id (sim_disconnect (run (sim_init 1) ?pre)) \<le> 1"
    by (simp add: run_def sim_init_def sim_connect_def sim_disconnect_def
        sim_subscribe_market_data_def stream_step_def Let_def)
  have t: "threads (run (sim_disconnect (run (sim_init 1) ?pre)) ?post) 1 = Some ?th"
    by (simp add: run_def sim_init_def sim_connect_def sim_disconnect_def
        sim_subscribe_market_data_def stream_step_def Let_def uniform_def)
  have c: "connected (run (sim_disconnect (run (sim_init 1) ?pre)) ?post)"
    by (simp add: run_def sim_init_def sim_connect_def sim_disconnect_def
        sim_subscribe_market_data_def stream_step_def Let_def)
  show ?thesis
    using stop_event_never_cleared[of 1 ?pre ?post 1 ?th example_tick_draws] n t c
    by simp
qed

section \<open>File-handshake client: theorems\<close>




lemma after_polls_snoc: "after_polls fs (polls @ [poll]) = apply_ops (after_polls fs polls) (snd poll)"
  by (simp add: after_polls_def)


















text \<open>
  C5. While \<open>is_connected\<close> is false, \<open>subscribe_market_data\<close> of the simulated client
  raises \<open>ConnectionError\<close> and leaves the client as it was (no thread, no subscription),
  and \<open>request_historical_data\<close> of either client raises \<open>ConnectionError\<close>, with no bars
  and with the file system as it was (no command file).
\<close>

theorem not_connected_raises:
  "(\<not> connected client \<longrightarrow>
      sim_subscribe_market_data client instrument seed = (Inl ConnectionError, client) \<and>
      sim_request_historical_data client instrument timeframe start end seed draws
        = Some (Inl ConnectionError)) \<and>
   (\<not> k_connected self \<longrightarrow>
      kinetick_request_historical_data L self fs command_id instrument timeframe start end
        t0 polls = Some (Inl ConnectionError, fs))"
  by (simp add: sim_subscribe_market_data_def sim_request_historical_data_def
      kinetick_request_historical_data_def)


theorem not_connected_raises_witness:
  "\<not> connected (sim_init 1) \<and>
   sim_subscribe_market_data (sim_init 1) ''ES'' (1 / 2) = (Inl ConnectionError, sim_init 1) \<and>
   sim_request_historical_data (sim_init 1) ''ES'' ''5m'' 0 3600000000 (1 / 2) example_draws
     = Some (Inl ConnectionError) \<and>
   \<not> k_connected (kinetick_disconnect example_client) \<and>
   kinetick_request_historical_data example_lib (kinetick_disconnect example_client) Map.empty
     ''ab12'' ''ES'' ''5m'' 0 3600000000 0 [(1, [])]
   = Some (Inl ConnectionError, Map.empty)"
proof -
  have a: "\<not> connected (sim_init 1)" by (simp add: sim_init_def)
  have b: "\<not> k_connected (kinetick_disconnect example_client)"
    by (simp add: kinetick_disconnect_def)
  show ?thesis
    using not_connected_raises[of "sim_init 1" "''ES''" "1 / 2" "''5m''" 0 3600000000
        example_draws "kinetick_disconnect example_client" example_lib Map.empty "''ab12''"
        0 "[(1, [])]"] a b
    by simp
qed
section \<open>Export files: theorems\<close>

















end
